theory Spec2Isabelle
  imports Complex_Main "HOL-Library.Word"
begin

section \<open>JavaScript values used by the application\<close>

text \<open>
  A JavaScript string is a sequence of UTF-16 code units; \<open>.length\<close> counts code units.
  String literals of the source are written through \<open>js\<close>.
\<close>

type_synonym jsstring = "16 word list"

definition js :: "string \<Rightarrow> jsstring" where
  "js s = map of_char s"

text \<open>
  \<open>a || b\<close> on an optional string: the left operand when it is truthy (defined and not
  the empty string), the right operand otherwise.
\<close>

definition orElse :: "jsstring option \<Rightarrow> jsstring \<Rightarrow> jsstring" where
  "orElse a b = (case a of None \<Rightarrow> b | Some m \<Rightarrow> if m = [] then b else m)"

text \<open>Truthiness of an optional string (\<open>undefined\<close>, \<open>null\<close> and \<open>''\<close> are falsy).\<close>

definition truthy :: "jsstring option \<Rightarrow> bool" where
  "truthy a = (case a of None \<Rightarrow> False | Some m \<Rightarrow> m \<noteq> [])"

text \<open>The settlement of an awaited promise.\<close>

datatype ('e, 'a) outcome = Rejects 'e | Resolves 'a

section \<open>AuthContext.tsx: the session state and its reducer\<close>

text \<open>
  \<open>interface AuthState\<close>. The type \<open>User\<close> is declared in AuthService, which this
  development takes as the type parameter \<open>'u\<close>.
\<close>

record 'u AuthState =
  isAuthenticated :: bool
  isLoading :: bool
  user :: "'u option"
  error :: "jsstring option"

text \<open>
  \<open>type AuthAction\<close>: the seven variants of the discriminated union, with their payloads.
  \<open>OTHER t\<close> stands for a runtime value whose \<open>type\<close> field \<open>t\<close> is none of the seven
  strings: the static type has no such value, the \<open>default\<close> branch of the reducer
  handles it.
\<close>

datatype 'u AuthAction =
    AUTH_START
  | AUTH_SUCCESS 'u "jsstring option"
  | AUTH_FAILURE jsstring
  | AUTH_LOGOUT
  | UPDATE_USER 'u
  | CLEAR_ERROR
  | AUTH_COMPLETE_WITHOUT_USER
  | OTHER jsstring

definition initialState :: "'u AuthState" where
  "initialState = \<lparr> isAuthenticated = False, isLoading = True, user = None, error = None \<rparr>"

text \<open>
  \<open>window.localStorage\<close> as the three token helpers see it: absent (\<open>typeof Storage\<close> is
  \<open>'undefined'\<close> or \<open>window.localStorage\<close> is falsy, as on React Native), present but
  throwing on every access, or present with its items; the flag says that \<open>setItem\<close>
  throws (quota exceeded).
\<close>

datatype localStorage =
    Missing
  | Denied
  | Working "jsstring \<rightharpoonup> jsstring" bool

definition TOKEN_STORAGE_KEY :: jsstring where
  "TOKEN_STORAGE_KEY = js ''auth_token''"

definition saveToken :: "jsstring \<Rightarrow> localStorage \<Rightarrow> localStorage \<times> bool" where
  "saveToken token st =
     (case st of
        Missing \<Rightarrow> (st, False)
      | Denied \<Rightarrow> (st, False)
      | Working items full \<Rightarrow>
          if full then (st, False)
          else (Working (items(TOKEN_STORAGE_KEY \<mapsto> token)) full, True))"

definition getToken :: "localStorage \<Rightarrow> jsstring option" where
  "getToken st =
     (case st of
        Missing \<Rightarrow> None
      | Denied \<Rightarrow> None
      | Working items full \<Rightarrow> items TOKEN_STORAGE_KEY)"

definition removeToken :: "localStorage \<Rightarrow> localStorage \<times> bool" where
  "removeToken st =
     (case st of
        Missing \<Rightarrow> (st, False)
      | Denied \<Rightarrow> (st, False)
      | Working items full \<Rightarrow> (Working (items(TOKEN_STORAGE_KEY := None)) full, True))"

text \<open>
  Everything the reducer reads or writes: the React state it is given and returns, the
  module variable \<open>globalCurrentUser\<close> and the local storage.
\<close>

record 'u world =
  session :: "'u AuthState"
  globalCurrentUser :: "'u option"
  storage :: localStorage

text \<open>
  \<open>function authReducer(state, action)\<close>. The returned state is the \<open>session\<close> of the
  result; the assignments to \<open>globalCurrentUser\<close> and the calls of \<open>saveToken\<close> and
  \<open>removeToken\<close> are the other two fields. Console output is not modelled.
\<close>

fun authReducer :: "'u world \<Rightarrow> 'u AuthAction \<Rightarrow> 'u world" where
  "authReducer w AUTH_START =
     w\<lparr> session := (session w)\<lparr> isLoading := True, error := None \<rparr> \<rparr>"
| "authReducer w (AUTH_SUCCESS u token) =
     w\<lparr> globalCurrentUser := Some u,
        storage := (case token of
                      None \<Rightarrow> storage w
                    | Some t \<Rightarrow> if t = [] then storage w else fst (saveToken t (storage w))),
        session := (session w)\<lparr> isAuthenticated := True, isLoading := False,
                                  user := Some u, error := None \<rparr> \<rparr>"
| "authReducer w (AUTH_FAILURE e) =
     w\<lparr> globalCurrentUser := None,
        storage := fst (removeToken (storage w)),
        session := (session w)\<lparr> isAuthenticated := False, isLoading := False,
                                  user := None, error := Some e \<rparr> \<rparr>"
| "authReducer w AUTH_LOGOUT =
     w\<lparr> globalCurrentUser := None,
        storage := fst (removeToken (storage w)),
        session := (session w)\<lparr> isAuthenticated := False, isLoading := False,
                                  user := None, error := None \<rparr> \<rparr>"
| "authReducer w AUTH_COMPLETE_WITHOUT_USER =
     w\<lparr> globalCurrentUser := None,
        session := (session w)\<lparr> isAuthenticated := False, isLoading := False,
                                  user := None, error := None \<rparr> \<rparr>"
| "authReducer w (UPDATE_USER u) =
     w\<lparr> globalCurrentUser := Some u,
        session := (session w)\<lparr> user := Some u, error := None \<rparr> \<rparr>"
| "authReducer w CLEAR_ERROR =
     w\<lparr> session := (session w)\<lparr> error := None \<rparr> \<rparr>"
| "authReducer w (OTHER t) = w"

text \<open>\<open>useReducer(authReducer, initialState)\<close>: the state after a sequence of dispatches.\<close>

definition dispatchAll :: "'u world \<Rightarrow> 'u AuthAction list \<Rightarrow> 'u world" where
  "dispatchAll w evs = foldl authReducer w evs"

definition initialWorld :: "'u option \<Rightarrow> localStorage \<Rightarrow> 'u world" where
  "initialWorld g st = \<lparr> session = initialState, globalCurrentUser = g, storage = st \<rparr>"

section \<open>AuthContext.tsx: the operations of the provider\<close>

text \<open>
  \<open>AuthResponse\<close> as the provider uses it: \<open>success\<close> is always there, the other three
  fields are optional (\<open>{ success: false, message: errorMessage }\<close> is an
  \<open>AuthResponse\<close>).
\<close>

record 'u AuthResponse =
  success :: bool
  message :: "jsstring option"
  respUser :: "'u option"
  respToken :: "jsstring option"

text \<open>
  The module \<open>authService\<close> is imported, not defined here: each of its calls is a
  parameter, the settlement of the promise it returns. \<open>'c\<close> is \<open>LoginData\<close>, \<open>'e\<close> the
  value a rejected promise carries.
\<close>

record ('c, 'u, 'e) authService =
  hasToken :: "('e, bool) outcome"
  validateToken :: "('e, 'u AuthResponse) outcome"
  loginCall :: "'c \<Rightarrow> ('e, 'u AuthResponse) outcome"
  logoutCall :: "('e, unit) outcome"

datatype authCall = CallHasToken | CallValidateToken

text \<open>
  \<open>response.success && response.user\<close>: the user when \<open>success\<close> holds and a user is
  there, a falsy value otherwise.
\<close>

definition successUser :: "'u AuthResponse \<Rightarrow> 'u option" where
  "successUser response = (if success response then respUser response else None)"

text \<open>
  \<open>checkExistingAuth\<close>, run once when the provider mounts. The second component lists
  the calls of \<open>authService\<close> it made, in order.
\<close>

definition checkExistingAuth ::
  "('c, 'u, 'e) authService \<Rightarrow> 'u world \<Rightarrow> 'u world \<times> authCall list" where
  "checkExistingAuth svc w =
     (let w1 = authReducer w AUTH_START;
          failed = js ''Error al verificar autenticaci'' @ [0xF3] @ js ''n''
      in case hasToken svc of
           Rejects e \<Rightarrow> (authReducer w1 (AUTH_FAILURE failed), [CallHasToken])
         | Resolves has \<Rightarrow>
             if \<not> has then (authReducer w1 AUTH_COMPLETE_WITHOUT_USER, [CallHasToken])
             else
               (case validateToken svc of
                  Rejects e \<Rightarrow>
                    (authReducer w1 (AUTH_FAILURE failed), [CallHasToken, CallValidateToken])
                | Resolves response \<Rightarrow>
                    (case successUser response of
                       Some u \<Rightarrow>
                         (authReducer w1 (AUTH_SUCCESS u None),
                          [CallHasToken, CallValidateToken])
                     | None \<Rightarrow>
                         (authReducer w1
                            (AUTH_FAILURE (orElse (message response)
                               (js ''Token inv'' @ [0xE1] @ js ''lido o expirado''))),
                          [CallHasToken, CallValidateToken]))))"

text \<open>
  \<open>login(credentials)\<close>: the new world and the settlement of the promise the caller
  holds.
\<close>

definition login ::
  "('c, 'u, 'e) authService \<Rightarrow> 'c \<Rightarrow> 'u world \<Rightarrow> 'u world \<times> ('e, 'u AuthResponse) outcome" where
  "login svc credentials w =
     (let w1 = authReducer w AUTH_START
      in case loginCall svc credentials of
           Resolves response \<Rightarrow>
             (case successUser response of
                Some u \<Rightarrow>
                  (authReducer w1 (AUTH_SUCCESS u (respToken response)), Resolves response)
              | None \<Rightarrow>
                  (authReducer w1
                     (AUTH_FAILURE (orElse (message response) (js ''Error en el login''))),
                   Resolves response))
         | Rejects e \<Rightarrow>
             (authReducer w1 (AUTH_FAILURE (js ''Error durante el login'')),
              Resolves \<lparr> success = False, message = Some (js ''Error durante el login''),
                         respUser = None, respToken = None \<rparr>))"

text \<open>\<open>logout()\<close>: both branches of the \<open>try\<close> dispatch \<open>AUTH_LOGOUT\<close>.\<close>

definition logout ::
  "('c, 'u, 'e) authService \<Rightarrow> 'u world \<Rightarrow> 'u world \<times> ('e, unit) outcome" where
  "logout svc w =
     (case logoutCall svc of
        Resolves r \<Rightarrow> (authReducer w AUTH_LOGOUT, Resolves ())
      | Rejects e \<Rightarrow> (authReducer w AUTH_LOGOUT, Resolves ()))"

section \<open>BarService.tsx\<close>

text \<open>
  What a service method can throw: an \<open>Error\<close> with its message, an axios error with
  \<open>error.message\<close> and \<open>error.response?.data?.message\<close>, or a value that is no
  \<open>Error\<close> at all. \<open>axios.isAxiosError\<close> holds of the second only.
\<close>

datatype thrown =
    Error jsstring
  | AxiosError jsstring "jsstring option"
  | NotAnError

datatype httpMethod = GET | POST | PUT | DELETE

text \<open>A call of \<open>this.api\<close>: the verb, the URL and the body sent, if any.\<close>

datatype 'b request = Request httpMethod jsstring "'b option"

text \<open>The body of \<open>createReview\<close> is \<open>{...reviewData, userId}\<close>, the others send the data.\<close>

datatype 'd reviewBody = Plain 'd | WithUser 'd jsstring

record 'd AxiosResponse =
  data :: 'd

text \<open>
  The helper \<open>HandleLoginError\<close> is imported from \<open>helpers/ErrorHandler\<close>: a parameter
  \<open>h\<close>, which says what the helper throws itself, if anything. \<open>HandleLoginError(error);
  throw error\<close> is then:
\<close>

definition handleThenThrow :: "(thrown \<Rightarrow> thrown option) \<Rightarrow> thrown \<Rightarrow> thrown" where
  "handleThenThrow h e = (case h e of Some t \<Rightarrow> t | None \<Rightarrow> e)"

text \<open>
  The \<open>catch\<close> block shared by \<open>createReview\<close>, \<open>updateReview\<close> and \<open>deleteReview\<close>.
\<close>

definition normalize :: "(thrown \<Rightarrow> thrown option) \<Rightarrow> thrown \<Rightarrow> thrown" where
  "normalize h e =
     (case e of
        AxiosError m rm \<Rightarrow> Error (orElse rm m)
      | Error m \<Rightarrow> handleThenThrow h e
      | NotAnError \<Rightarrow> handleThenThrow h e)"

text \<open>
  Every method takes the network as the parameter \<open>api\<close> (the settlement of the request)
  and \<open>authService.getCurrentUser()?._id\<close> as \<open>currentUserId\<close>. It returns the requests it
  issued and what it throws (\<open>Inl\<close>) or returns (\<open>Inr\<close>).
\<close>

definition createReview ::
  "(thrown \<Rightarrow> thrown option) \<Rightarrow> ('d reviewBody request \<Rightarrow> (thrown, 'r) outcome) \<Rightarrow>
   jsstring option \<Rightarrow> jsstring \<Rightarrow> 'd \<Rightarrow> 'd reviewBody request list \<times> (thrown + 'r)" where
  "createReview h api currentUserId barId reviewData =
     (case currentUserId of
        None \<Rightarrow> ([], Inl (Error (js ''User not authenticated'')))
      | Some userId \<Rightarrow>
          if userId = [] then ([], Inl (Error (js ''User not authenticated'')))
          else
            (let req = Request POST (js ''/bars/'' @ barId @ js ''/reviews'')
                         (Some (WithUser reviewData userId))
             in case api req of
                  Resolves response \<Rightarrow> ([req], Inr response)
                | Rejects e \<Rightarrow> ([req], Inl (normalize h e))))"

definition updateReview ::
  "(thrown \<Rightarrow> thrown option) \<Rightarrow> ('d reviewBody request \<Rightarrow> (thrown, 'r) outcome) \<Rightarrow>
   jsstring option \<Rightarrow> jsstring \<Rightarrow> 'd \<Rightarrow> 'd reviewBody request list \<times> (thrown + 'r)" where
  "updateReview h api currentUserId reviewId reviewData =
     (case currentUserId of
        None \<Rightarrow> ([], Inl (Error (js ''User not authenticated'')))
      | Some userId \<Rightarrow>
          if userId = [] then ([], Inl (Error (js ''User not authenticated'')))
          else
            (let req = Request PUT (js ''/users/'' @ userId @ js ''/reviews/'' @ reviewId)
                         (Some (Plain reviewData))
             in case api req of
                  Resolves response \<Rightarrow> ([req], Inr response)
                | Rejects e \<Rightarrow> ([req], Inl (normalize h e))))"

definition deleteReview ::
  "(thrown \<Rightarrow> thrown option) \<Rightarrow> ('b request \<Rightarrow> (thrown, 'r) outcome) \<Rightarrow>
   jsstring option \<Rightarrow> jsstring \<Rightarrow> 'b request list \<times> (thrown + 'r)" where
  "deleteReview h api currentUserId reviewId =
     (case currentUserId of
        None \<Rightarrow> ([], Inl (Error (js ''User not authenticated'')))
      | Some userId \<Rightarrow>
          if userId = [] then ([], Inl (Error (js ''User not authenticated'')))
          else
            (let req = Request DELETE (js ''/users/'' @ userId @ js ''/reviews/'' @ reviewId) None
             in case api req of
                  Resolves response \<Rightarrow> ([req], Inr response)
                | Rejects e \<Rightarrow> ([req], Inl (normalize h e))))"

text \<open>\<open>{hasReviewed: boolean, review?: any}\<close>\<close>

record 'v reviewCheck =
  hasReviewed :: bool
  review :: "'v option"

definition checkUserReview ::
  "('b request \<Rightarrow> (thrown, 'v reviewCheck AxiosResponse) outcome) \<Rightarrow>
   jsstring option \<Rightarrow> jsstring \<Rightarrow> 'b request list \<times> (thrown + 'v reviewCheck)" where
  "checkUserReview api currentUserId barId =
     (case currentUserId of
        None \<Rightarrow> ([], Inr \<lparr> hasReviewed = False, review = None \<rparr>)
      | Some userId \<Rightarrow>
          if userId = [] then ([], Inr \<lparr> hasReviewed = False, review = None \<rparr>)
          else
            (let req = Request GET
                         (js ''/users/'' @ userId @ js ''/reviews/'' @ barId @ js ''/check'') None
             in case api req of
                  Resolves response \<Rightarrow> ([req], Inr (data response))
                | Rejects e \<Rightarrow> ([req], Inr \<lparr> hasReviewed = False, review = None \<rparr>)))"

text \<open>
  \<open>addBarToFavorites\<close> rethrows what is not an axios error as it is; \<open>removeBarFromFavorites\<close>
  has no \<open>try\<close>.
\<close>

definition addBarToFavorites ::
  "('b request \<Rightarrow> (thrown, 'r) outcome) \<Rightarrow>
   jsstring option \<Rightarrow> jsstring \<Rightarrow> 'b request list \<times> (thrown + 'r)" where
  "addBarToFavorites api currentUserId barId =
     (case currentUserId of
        None \<Rightarrow> ([], Inl (Error (js ''User not authenticated'')))
      | Some userId \<Rightarrow>
          if userId = [] then ([], Inl (Error (js ''User not authenticated'')))
          else
            (let req = Request POST (js ''/users/'' @ userId @ js ''/favorites/'' @ barId) None
             in case api req of
                  Resolves response \<Rightarrow> ([req], Inr response)
                | Rejects e \<Rightarrow>
                    ([req], Inl (case e of
                                   AxiosError m rm \<Rightarrow> Error (orElse rm m)
                                 | Error m \<Rightarrow> e
                                 | NotAnError \<Rightarrow> e))))"

definition removeBarFromFavorites ::
  "('b request \<Rightarrow> (thrown, 'r) outcome) \<Rightarrow>
   jsstring option \<Rightarrow> jsstring \<Rightarrow> 'b request list \<times> (thrown + 'r)" where
  "removeBarFromFavorites api currentUserId barId =
     (case currentUserId of
        None \<Rightarrow> ([], Inl (Error (js ''User not authenticated'')))
      | Some userId \<Rightarrow>
          if userId = [] then ([], Inl (Error (js ''User not authenticated'')))
          else
            (let req = Request DELETE (js ''/users/'' @ userId @ js ''/favorites/'' @ barId) None
             in case api req of
                  Resolves response \<Rightarrow> ([req], Inr response)
                | Rejects e \<Rightarrow> ([req], Inl e)))"

text \<open>
  The body of the favourite check: \<open>response.data.isFavorite\<close> throws a \<open>TypeError\<close>
  inside the \<open>try\<close> when \<open>response.data\<close> is \<open>null\<close> or \<open>undefined\<close> (\<open>None\<close> here).
\<close>

record favoriteCheck =
  isFavorite :: bool

definition isBarFavorite ::
  "('b request \<Rightarrow> (thrown, favoriteCheck option AxiosResponse) outcome) \<Rightarrow>
   jsstring option \<Rightarrow> jsstring \<Rightarrow> 'b request list \<times> (thrown + bool)" where
  "isBarFavorite api currentUserId barId =
     (case currentUserId of
        None \<Rightarrow> ([], Inr False)
      | Some userId \<Rightarrow>
          if userId = [] then ([], Inr False)
          else
            (let req = Request GET
                         (js ''/users/'' @ userId @ js ''/favorites/'' @ barId @ js ''/check'') None
             in case api req of
                  Resolves response \<Rightarrow>
                    (case data response of
                       Some d \<Rightarrow> ([req], Inr (isFavorite d))
                     | None \<Rightarrow> ([req], Inr False))
                | Rejects e \<Rightarrow> ([req], Inr False)))"

text \<open>
  \<open>getUserReviewCount(userId?)\<close> and \<open>getUserReviews(userId?)\<close> throw inside their own
  \<open>try\<close>: the error passes through \<open>HandleLoginError\<close> before it reaches the caller.
\<close>

definition getUserReviewCount ::
  "(thrown \<Rightarrow> thrown option) \<Rightarrow> ('b request \<Rightarrow> (thrown, 'r) outcome) \<Rightarrow>
   jsstring option \<Rightarrow> jsstring option \<Rightarrow> 'b request list \<times> (thrown + 'r)" where
  "getUserReviewCount h api currentUserId userId =
     (let targetUserId = (if truthy userId then userId else currentUserId)
      in case targetUserId of
           None \<Rightarrow> ([], Inl (handleThenThrow h (Error (js ''User not authenticated''))))
         | Some t \<Rightarrow>
             if t = [] then ([], Inl (handleThenThrow h (Error (js ''User not authenticated''))))
             else
               (let req = Request GET (js ''/users/'' @ t @ js ''/reviews/count'') None
                in case api req of
                     Resolves response \<Rightarrow> ([req], Inr response)
                   | Rejects e \<Rightarrow> ([req], Inl (handleThenThrow h e))))"

definition getUserReviews ::
  "(thrown \<Rightarrow> thrown option) \<Rightarrow> ('b request \<Rightarrow> (thrown, 'r) outcome) \<Rightarrow>
   jsstring option \<Rightarrow> jsstring option \<Rightarrow> 'b request list \<times> (thrown + 'r)" where
  "getUserReviews h api currentUserId userId =
     (let targetUserId = (if truthy userId then userId else currentUserId)
      in case targetUserId of
           None \<Rightarrow> ([], Inl (handleThenThrow h (Error (js ''User not authenticated''))))
         | Some t \<Rightarrow>
             if t = [] then ([], Inl (handleThenThrow h (Error (js ''User not authenticated''))))
             else
               (let req = Request GET (js ''/users/'' @ t @ js ''/reviews'') None
                in case api req of
                     Resolves response \<Rightarrow> ([req], Inr response)
                   | Rejects e \<Rightarrow> ([req], Inl (handleThenThrow h e))))"

section \<open>String.prototype.trim and the numbers parseFloat returns\<close>

text \<open>
  The code units \<open>trim\<close> strips: the WhiteSpace and LineTerminator productions of
  ECMAScript.
\<close>

definition isWhiteSpace :: "16 word \<Rightarrow> bool" where
  "isWhiteSpace c =
     (c = 0x0009 \<or> c = 0x000A \<or> c = 0x000B \<or> c = 0x000C \<or> c = 0x000D \<or> c = 0x0020 \<or>
      c = 0x00A0 \<or> c = 0x1680 \<or> (0x2000 \<le> c \<and> c \<le> 0x200A) \<or> c = 0x2028 \<or>
      c = 0x2029 \<or> c = 0x202F \<or> c = 0x205F \<or> c = 0x3000 \<or> c = 0xFEFF)"

definition trim :: "jsstring \<Rightarrow> jsstring" where
  "trim s = rev (dropWhile isWhiteSpace (rev (dropWhile isWhiteSpace s)))"

text \<open>
  A JavaScript number as \<open>parseFloat\<close> can return it. \<open>parseFloat\<close> itself and the
  constructor \<open>new URL\<close> (which throws on a malformed URL) belong to the platform: the
  validation takes them as the parameters \<open>parseFloat\<close> and \<open>validUrl\<close>.
\<close>

datatype number = NaN | NegInfinity | Num real | PosInfinity

definition isNaN :: "number \<Rightarrow> bool" where
  "isNaN n = (n = NaN)"

fun num_lt :: "number \<Rightarrow> number \<Rightarrow> bool" where
  "num_lt (Num a) (Num b) = (a < b)"
| "num_lt NegInfinity (Num b) = True"
| "num_lt NegInfinity PosInfinity = True"
| "num_lt (Num a) PosInfinity = True"
| "num_lt _ _ = False"

fun num_le :: "number \<Rightarrow> number \<Rightarrow> bool" where
  "num_le NaN _ = False"
| "num_le _ NaN = False"
| "num_le a b = (a = b \<or> num_lt a b)"

section \<open>AddMenuItemScreen.tsx: validateForm\<close>

datatype itemKind = alcohol | comida | bebida

record MenuItemForm =
  name :: jsstring
  description :: jsstring
  price :: jsstring
  photo :: jsstring
  itemType :: itemKind
  alcoholPercentage :: jsstring
  volume :: jsstring

datatype formField =
  Name | Description | Price | Photo | ItemType | AlcoholPercentage | Volume

definition isValidUrl :: "(jsstring \<Rightarrow> bool) \<Rightarrow> jsstring \<Rightarrow> bool" where
  "isValidUrl validUrl url = validUrl url"

text \<open>
  \<open>validateForm\<close>: \<open>newErrors\<close> as the list of its entries in the order they are
  assigned, and the boolean returned, \<open>Object.keys(newErrors).length === 0\<close>.
\<close>

definition newErrors ::
  "(jsstring \<Rightarrow> number) \<Rightarrow> (jsstring \<Rightarrow> bool) \<Rightarrow> MenuItemForm \<Rightarrow> (formField \<times> jsstring) list" where
  "newErrors parseFloat validUrl form =
     (if trim (name form) = [] then [(Name, js ''Name is required'')] else []) @
     (if trim (description form) = [] then [(Description, js ''Description is required'')]
      else []) @
     (if trim (price form) = [] then [(Price, js ''Price is required'')]
      else if isNaN (parseFloat (price form)) \<or> num_lt (parseFloat (price form)) (Num 0)
      then [(Price, js ''Price must be a positive number'')]
      else []) @
     (if itemType form = alcohol
      then
        (if trim (alcoholPercentage form) = []
         then [(AlcoholPercentage, js ''Alcohol percentage is required for alcoholic items'')]
         else
           (let alcoholPercent = parseFloat (alcoholPercentage form)
            in if isNaN alcoholPercent \<or> num_le alcoholPercent (Num 0) \<or>
                  num_lt (Num 100) alcoholPercent
               then [(AlcoholPercentage, js ''Alcohol percentage must be between 0 and 100'')]
               else []))
      else []) @
     (if trim (volume form) \<noteq> [] \<and>
         (isNaN (parseFloat (volume form)) \<or> num_lt (parseFloat (volume form)) (Num 0))
      then [(Volume, js ''Volume must be a positive number'')]
      else []) @
     (if photo form \<noteq> [] \<and> \<not> isValidUrl validUrl (photo form)
      then [(Photo, js ''Please enter a valid URL'')]
      else [])"

definition validateForm ::
  "(jsstring \<Rightarrow> number) \<Rightarrow> (jsstring \<Rightarrow> bool) \<Rightarrow> MenuItemForm \<Rightarrow> bool" where
  "validateForm parseFloat validUrl form = (length (newErrors parseFloat validUrl form) = 0)"

section \<open>ReviewModal: handleSubmit\<close>

text \<open>The component state \<open>handleSubmit\<close> reads and sets, and the props it uses.\<close>

record modalState =
  rating :: nat
  comment :: jsstring
  loading :: bool

record existingReview =
  review_id :: jsstring
  review_rating :: nat
  review_comment :: jsstring

record reviewData =
  data_rating :: nat
  data_comment :: jsstring

text \<open>
  What the handler does besides setting state, in order: alerts (title and text), the
  requests of the service method it awaits, and the two callbacks of the parent.
\<close>

datatype effect =
    Alert jsstring jsstring
  | Http "reviewData reviewBody request"
  | OnReviewSubmitted
  | OnClose

text \<open>\<open>error instanceof Error ? error.message : '...'\<close>; an axios error is an \<open>Error\<close>.\<close>

definition errorText :: "thrown \<Rightarrow> jsstring" where
  "errorText e =
     (case e of
        Error m \<Rightarrow> m
      | AxiosError m rm \<Rightarrow> m
      | NotAnError \<Rightarrow> js ''Failed to submit review. Please try again.'')"

definition handleSubmit ::
  "(thrown \<Rightarrow> thrown option) \<Rightarrow> (reviewData reviewBody request \<Rightarrow> (thrown, 'r) outcome) \<Rightarrow>
   jsstring option \<Rightarrow> jsstring \<Rightarrow> existingReview option \<Rightarrow> modalState \<Rightarrow>
   modalState \<times> effect list" where
  "handleSubmit h api currentUserId barId existing m =
     (if rating m = 0 then (m, [Alert (js ''Error'') (js ''Please select a rating'')])
      else if length (trim (comment m)) < 10
      then (m, [Alert (js ''Error'')
                  (js ''Please write at least 10 characters in your review'')])
      else
        (let reviewData = \<lparr> data_rating = rating m, data_comment = trim (comment m) \<rparr>;
             (requests, result) =
               (case existing of
                  Some ex \<Rightarrow> updateReview h api currentUserId (review_id ex) reviewData
                | None \<Rightarrow> createReview h api currentUserId barId reviewData);
             thanks =
               (case existing of
                  Some ex \<Rightarrow> js ''Your review has been updated!''
                | None \<Rightarrow> js ''Thank you for your review!'')
         in case result of
              Inr response \<Rightarrow>
                (m\<lparr> rating := 0, comment := [], loading := False \<rparr>,
                 map Http requests @ [Alert (js ''Success'') thanks, OnReviewSubmitted, OnClose])
            | Inl e \<Rightarrow>
                (m\<lparr> loading := False \<rparr>,
                 map Http requests @ [Alert (js ''Error'') (errorText e)])))"

section \<open>The vocabulary of the specification\<close>

text \<open>The \<open>type\<close> field of an action, and the seven strings the reducer knows.\<close>

fun actionType :: "'u AuthAction \<Rightarrow> jsstring" where
  "actionType AUTH_START = js ''AUTH_START''"
| "actionType (AUTH_SUCCESS u token) = js ''AUTH_SUCCESS''"
| "actionType (AUTH_FAILURE e) = js ''AUTH_FAILURE''"
| "actionType AUTH_LOGOUT = js ''AUTH_LOGOUT''"
| "actionType (UPDATE_USER u) = js ''UPDATE_USER''"
| "actionType CLEAR_ERROR = js ''CLEAR_ERROR''"
| "actionType AUTH_COMPLETE_WITHOUT_USER = js ''AUTH_COMPLETE_WITHOUT_USER''"
| "actionType (OTHER t) = t"

definition knownTypes :: "jsstring list" where
  "knownTypes =
     [js ''AUTH_START'', js ''AUTH_SUCCESS'', js ''AUTH_FAILURE'', js ''AUTH_LOGOUT'',
      js ''AUTH_COMPLETE_WITHOUT_USER'', js ''UPDATE_USER'', js ''CLEAR_ERROR'']"

text \<open>
  The settling events of the specification, the successes among them, and the most
  recent settling event of a history (the last one dispatched), if there is one.
\<close>

fun isSettling :: "'u AuthAction \<Rightarrow> bool" where
  "isSettling (AUTH_SUCCESS u token) = True"
| "isSettling (AUTH_FAILURE e) = True"
| "isSettling AUTH_LOGOUT = True"
| "isSettling AUTH_COMPLETE_WITHOUT_USER = True"
| "isSettling a = False"

fun isSuccess :: "'u AuthAction \<Rightarrow> bool" where
  "isSuccess (AUTH_SUCCESS u token) = True"
| "isSuccess a = False"

definition lastSettling :: "'u AuthAction list \<Rightarrow> 'u AuthAction option" where
  "lastSettling evs = List.find isSettling (rev evs)"

text \<open>
  The session invariant as the specification words it: an authenticated session has a
  user, and a loading session is neither authenticated nor in error.
\<close>

definition sessionInvariant :: "'u AuthState \<Rightarrow> bool" where
  "sessionInvariant s =
     ((isAuthenticated s \<longrightarrow> user s \<noteq> None) \<and>
      \<not> (isLoading s \<and> (isAuthenticated s \<or> error s \<noteq> None)))"

text \<open>The token validation at startup fails: the promise rejects, or the answer has no
  success with a user.\<close>

definition validationRejects :: "('c, 'u, 'e) authService \<Rightarrow> bool" where
  "validationRejects svc =
     (case validateToken svc of
        Rejects e \<Rightarrow> True
      | Resolves response \<Rightarrow> successUser response = None)"

text \<open>A number that is not negative (and not \<open>NaN\<close>).\<close>

definition nonNegative :: "number \<Rightarrow> bool" where
  "nonNegative n = (case n of Num r \<Rightarrow> 0 \<le> r | PosInfinity \<Rightarrow> True | _ \<Rightarrow> False)"

text \<open>
  The fields of the form other than the alcohol percentage are valid: name, description
  and price are not blank, the price parses to a number that is not negative, so does a
  volume that is not blank, and a photo that is not empty is a URL.
\<close>

definition otherFieldsValid ::
  "(jsstring \<Rightarrow> number) \<Rightarrow> (jsstring \<Rightarrow> bool) \<Rightarrow> MenuItemForm \<Rightarrow> bool" where
  "otherFieldsValid parseFloat validUrl form =
     (trim (name form) \<noteq> [] \<and> trim (description form) \<noteq> [] \<and>
      trim (price form) \<noteq> [] \<and> nonNegative (parseFloat (price form)) \<and>
      (trim (volume form) = [] \<or> nonNegative (parseFloat (volume form))) \<and>
      (photo form = [] \<or> validUrl (photo form)))"

text \<open>A number in the interval (0, 100].\<close>

definition inPercentRange :: "number \<Rightarrow> bool" where
  "inPercentRange n = (case n of Num r \<Rightarrow> 0 < r \<and> r \<le> 100 | _ \<Rightarrow> False)"

text \<open>The error every guarded service method throws when there is no caller.\<close>

definition notAuthenticated :: thrown where
  "notAuthenticated = Error (js ''User not authenticated'')"

text \<open>The requests among the effects of the review handler, in order.\<close>

fun httpCalls :: "effect list \<Rightarrow> reviewData reviewBody request list" where
  "httpCalls [] = []"
| "httpCalls (Http r # es) = r # httpCalls es"
| "httpCalls (e # es) = httpCalls es"

section \<open>Example inputs\<close>

text \<open>
  Concrete behaviours of \<open>authService\<close>: no token stored; a stored token that the
  validation endpoint turns down; a login that succeeds with user \<open>1\<close> and token
  \<open>abc\<close>; a login that succeeds without a token; a login with bad credentials; a
  service that cannot be reached.
\<close>

definition svcNoToken :: "(unit, nat, unit) authService" where
  "svcNoToken =
     \<lparr> hasToken = Resolves False, validateToken = Rejects (),
       loginCall = (\<lambda>c. Rejects ()), logoutCall = Resolves () \<rparr>"

definition svcExpired :: "(unit, nat, unit) authService" where
  "svcExpired =
     \<lparr> hasToken = Resolves True,
       validateToken = Resolves \<lparr> success = False, message = Some (js ''jwt expired''),
                                  respUser = None, respToken = None \<rparr>,
       loginCall = (\<lambda>c. Rejects ()), logoutCall = Resolves () \<rparr>"

definition svcAccept :: "(unit, nat, unit) authService" where
  "svcAccept =
     \<lparr> hasToken = Resolves False, validateToken = Rejects (),
       loginCall = (\<lambda>c. Resolves \<lparr> success = True, message = None, respUser = Some 1,
                                     respToken = Some (js ''abc'') \<rparr>),
       logoutCall = Resolves () \<rparr>"

definition svcAcceptNoToken :: "(unit, nat, unit) authService" where
  "svcAcceptNoToken =
     \<lparr> hasToken = Resolves False, validateToken = Rejects (),
       loginCall = (\<lambda>c. Resolves \<lparr> success = True, message = None, respUser = Some 1,
                                     respToken = None \<rparr>),
       logoutCall = Resolves () \<rparr>"

definition svcRefuse :: "(unit, nat, unit) authService" where
  "svcRefuse =
     \<lparr> hasToken = Resolves False, validateToken = Rejects (),
       loginCall = (\<lambda>c. Resolves \<lparr> success = False, message = Some (js ''Bad credentials''),
                                     respUser = None, respToken = None \<rparr>),
       logoutCall = Resolves () \<rparr>"

definition svcDown :: "(unit, nat, unit) authService" where
  "svcDown =
     \<lparr> hasToken = Resolves True, validateToken = Rejects (),
       loginCall = (\<lambda>c. Rejects ()), logoutCall = Rejects () \<rparr>"

text \<open>A working local storage that holds the token \<open>old\<close>, and a world around it.\<close>

definition storedOld :: localStorage where
  "storedOld = Working (Map.empty(TOKEN_STORAGE_KEY \<mapsto> js ''old'')) False"

definition signedIn :: "nat world" where
  "signedIn =
     \<lparr> session = \<lparr> isAuthenticated = True, isLoading = False, user = Some 1, error = None \<rparr>,
       globalCurrentUser = Some 1, storage = storedOld \<rparr>"

text \<open>A network that answers every request with an axios error, with and without a
  message in the response body, and one that accepts every request.\<close>

definition apiNotFound :: "'b request \<Rightarrow> (thrown, 'r) outcome" where
  "apiNotFound req =
     Rejects (AxiosError (js ''Request failed with status code 404'') (Some (js ''Bar not found'')))"

definition apiTimeout :: "'b request \<Rightarrow> (thrown, 'r) outcome" where
  "apiTimeout req = Rejects (AxiosError (js ''timeout of 10000ms exceeded'') None)"

definition apiOk :: "'b request \<Rightarrow> (thrown, unit) outcome" where
  "apiOk req = Resolves ()"

text \<open>A \<open>parseFloat\<close> on the few strings the examples use, and a form for an alcoholic
  item whose percentage field is still empty.\<close>

definition parseFloatExample :: "jsstring \<Rightarrow> number" where
  "parseFloatExample s =
     (if s = js ''12.5'' then Num 12.5
      else if s = js ''0'' then Num 0
      else if s = js ''100'' then Num 100
      else if s = js ''100.5'' then Num 100.5
      else NaN)"

definition mezcal :: MenuItemForm where
  "mezcal =
     \<lparr> name = js ''Mezcal'', description = js ''Joven'', price = js ''12.5'', photo = [],
       itemType = alcohol, alcoholPercentage = [], volume = [] \<rparr>"

text \<open>The modal with five stars and a comment.\<close>

definition fiveStars :: "jsstring \<Rightarrow> modalState" where
  "fiveStars c = \<lparr> rating = 5, comment = c, loading = False \<rparr>"

section \<open>The reducer\<close>

lemma lastSettling_snoc:
  "lastSettling (evs @ [a]) = (if isSettling a then Some a else lastSettling evs)"
  by (simp add: lastSettling_def)

lemma dispatchAll_snoc: "dispatchAll w (evs @ [a]) = authReducer (dispatchAll w evs) a"
  by (simp add: dispatchAll_def)

lemma step_isAuthenticated:
  "isAuthenticated (session (authReducer w a)) =
     (if isSettling a then isSuccess a else isAuthenticated (session w))"
  by (cases a) simp_all

lemma dispatchAll_isAuthenticated:
  "isAuthenticated (session (dispatchAll w evs)) =
     (case lastSettling evs of None \<Rightarrow> isAuthenticated (session w) | Some a \<Rightarrow> isSuccess a)"
proof (induction evs rule: rev_induct)
  case Nil
  show ?case by (simp add: dispatchAll_def lastSettling_def)
next
  case (snoc a evs)
  show ?case
    by (simp add: dispatchAll_snoc lastSettling_snoc step_isAuthenticated snoc.IH)
qed

text \<open>
  Claim C1. After any sequence of events dispatched from the initial state,
  \<open>isAuthenticated\<close> holds exactly when the history has a settling event and the most
  recent one is an \<open>AUTH_SUCCESS\<close> (whose payload always carries a user). It is false
  right after an \<open>AUTH_FAILURE\<close> or an \<open>AUTH_LOGOUT\<close>, and an event that is not settling
  leaves it as it was.
\<close>

theorem authReducer_isAuthenticated_last_settling:
  "isAuthenticated (session (dispatchAll (initialWorld g st) evs)) =
     (case lastSettling evs of None \<Rightarrow> False | Some a \<Rightarrow> isSuccess a)
   \<and> \<not> isAuthenticated (session (authReducer w (AUTH_FAILURE e)))
   \<and> \<not> isAuthenticated (session (authReducer w AUTH_LOGOUT))
   \<and> isAuthenticated (session (authReducer w a)) =
       (if isSettling a then isSuccess a else isAuthenticated (session w))"
  by (simp add: dispatchAll_isAuthenticated step_isAuthenticated initialWorld_def
      initialState_def split: option.splits)

lemma step_user:
  "isAuthenticated (session w) \<longrightarrow> user (session w) \<noteq> None \<Longrightarrow>
   isAuthenticated (session (authReducer w a)) \<longrightarrow> user (session (authReducer w a)) \<noteq> None"
  by (cases a) simp_all

lemma step_loading:
  "isLoading (session w) \<longrightarrow> error (session w) = None \<Longrightarrow>
   isLoading (session (authReducer w a)) \<longrightarrow> error (session (authReducer w a)) = None"
  by (cases a) simp_all

lemma reachable_user:
  "isAuthenticated (session (dispatchAll (initialWorld g st) evs)) \<longrightarrow>
   user (session (dispatchAll (initialWorld g st) evs)) \<noteq> None"
proof (induction evs rule: rev_induct)
  case Nil
  show ?case by (simp add: dispatchAll_def initialWorld_def initialState_def)
next
  case (snoc a evs)
  then show ?case unfolding dispatchAll_snoc by (rule step_user)
qed

lemma reachable_loading:
  "isLoading (session (dispatchAll (initialWorld g st) evs)) \<longrightarrow>
   error (session (dispatchAll (initialWorld g st) evs)) = None"
proof (induction evs rule: rev_induct)
  case Nil
  show ?case by (simp add: dispatchAll_def initialWorld_def initialState_def)
next
  case (snoc a evs)
  then show ?case unfolding dispatchAll_snoc by (rule step_loading)
qed

lemma settled_not_loading: "isSettling a \<Longrightarrow> \<not> isLoading (session (authReducer w a))"
  by (cases a) simp_all

text \<open>
  Claim C2, as amended. In every state reachable from the initial state an
  authenticated session has a user, and a loading session carries no error; right after
  a settling event the session is not loading. (A loading session can be authenticated:
  \<open>AUTH_START\<close> keeps \<open>isAuthenticated\<close>.)
\<close>

theorem reachable_session_invariant_amended:
  "(isAuthenticated (session (dispatchAll (initialWorld g st) evs)) \<longrightarrow>
      user (session (dispatchAll (initialWorld g st) evs)) \<noteq> None)
   \<and> (isLoading (session (dispatchAll (initialWorld g st) evs)) \<longrightarrow>
      error (session (dispatchAll (initialWorld g st) evs)) = None)
   \<and> (isSettling a \<longrightarrow> \<not> isLoading (session (authReducer w a)))"
  using reachable_user [of g st evs] reachable_loading [of g st evs]
    settled_not_loading [of a w]
  by blast

theorem reachable_session_invariant_amended_witness:
  "isAuthenticated
     (session (dispatchAll (initialWorld None Missing) [AUTH_SUCCESS (1::nat) None]))
   \<and> user (session (dispatchAll (initialWorld None Missing) [AUTH_SUCCESS (1::nat) None]))
       \<noteq> None
   \<and> isLoading
       (session (dispatchAll (initialWorld None Missing)
          [AUTH_SUCCESS (1::nat) None, AUTH_START]))
   \<and> error
       (session (dispatchAll (initialWorld None Missing)
          [AUTH_SUCCESS (1::nat) None, AUTH_START])) = None
   \<and> isSettling (AUTH_LOGOUT :: nat AuthAction)
   \<and> \<not> isLoading
         (session (authReducer (initialWorld None Missing) (AUTH_LOGOUT :: nat AuthAction)))"
  using
    reachable_session_invariant_amended
      [of None Missing "[AUTH_SUCCESS (1::nat) None]" AUTH_LOGOUT "initialWorld None Missing"]
    reachable_session_invariant_amended
      [of None Missing "[AUTH_SUCCESS (1::nat) None, AUTH_START]" AUTH_LOGOUT
        "initialWorld None Missing"]
  by (simp add: dispatchAll_def initialWorld_def initialState_def)

text \<open>
  Claim C2 as stated fails: a login started while a user is signed in (\<open>AUTH_START\<close>
  after an \<open>AUTH_SUCCESS\<close>) gives a session that is loading and authenticated at once.
\<close>

theorem session_invariant_loading_authenticated_counterexample:
  "\<not> sessionInvariant
       (session (dispatchAll (initialWorld None Missing)
          [AUTH_START, AUTH_SUCCESS (1::nat) None, AUTH_START]))"
  by (simp add: sessionInvariant_def dispatchAll_def initialWorld_def initialState_def)

text \<open>
  Claim C9. An action whose \<open>type\<close> is none of the seven known strings leaves the state
  (and everything else the reducer can touch) unchanged.
\<close>

theorem authReducer_unknown_action:
  "actionType a \<notin> set knownTypes \<Longrightarrow> authReducer w a = w"
  by (cases a) (simp_all add: knownTypes_def)

theorem authReducer_unknown_action_witness:
  "actionType (OTHER (js ''PING'') :: nat AuthAction) \<notin> set knownTypes \<and>
   authReducer (initialWorld (Some (1::nat)) Missing) (OTHER (js ''PING'')) =
     initialWorld (Some 1) Missing"
  using authReducer_unknown_action
    [of "OTHER (js ''PING'') :: nat AuthAction" "initialWorld (Some (1::nat)) Missing"]
  by (simp add: knownTypes_def js_def)

section \<open>The provider\<close>

lemma getToken_removeToken: "getToken (fst (removeToken st)) = None"
  by (cases st) (simp_all add: getToken_def removeToken_def)

text \<open>
  Claim C3. Whatever the remote logout call does (it resolves, or it rejects for any
  reason), \<open>logout\<close> resolves, its effect is exactly the \<open>AUTH_LOGOUT\<close> transition, the
  session ends unauthenticated with no user and no error, and no token can be read back
  from the storage.
\<close>

theorem logout_clears_session:
  "fst (logout svc w) = authReducer w AUTH_LOGOUT
   \<and> snd (logout svc w) = Resolves ()
   \<and> session (fst (logout svc w)) =
       \<lparr> isAuthenticated = False, isLoading = False, user = None, error = None \<rparr>
   \<and> globalCurrentUser (fst (logout svc w)) = None
   \<and> getToken (storage (fst (logout svc w))) = None"
  by (cases "logoutCall svc") (simp_all add: logout_def getToken_removeToken)

lemma orElse_nonempty: "d \<noteq> [] \<Longrightarrow> orElse a d \<noteq> []"
  by (simp add: orElse_def split: option.splits)

lemma checkExistingAuth_no_token:
  "hasToken svc = Resolves False \<Longrightarrow>
   checkExistingAuth svc w =
     (authReducer (authReducer w AUTH_START) AUTH_COMPLETE_WITHOUT_USER, [CallHasToken])"
  by (simp add: checkExistingAuth_def Let_def)

lemma checkExistingAuth_rejected:
  assumes "hasToken svc = Resolves True" and "validationRejects svc"
  shows "\<exists>m. m \<noteq> [] \<and>
     checkExistingAuth svc w =
       (authReducer (authReducer w AUTH_START) (AUTH_FAILURE m),
        [CallHasToken, CallValidateToken])"
proof (cases "validateToken svc")
  case (Rejects e)
  with assms(1) show ?thesis
    by (intro exI [of _ "js ''Error al verificar autenticaci'' @ [0xF3] @ js ''n''"])
       (simp add: checkExistingAuth_def Let_def)
next
  case (Resolves response)
  with assms(2) have none: "successUser response = None"
    by (simp add: validationRejects_def)
  have "orElse (message response) (js ''Token inv'' @ [0xE1] @ js ''lido o expirado'') \<noteq> []"
    by (rule orElse_nonempty) simp
  with Resolves none assms(1) show ?thesis
    by (intro exI [of _ "orElse (message response)
          (js ''Token inv'' @ [0xE1] @ js ''lido o expirado'')"])
       (simp add: checkExistingAuth_def Let_def)
qed

text \<open>
  Claim C4. At startup, when \<open>authService.hasToken()\<close> answers that no token is stored,
  the only call made is that check (the validation endpoint is not called) and the
  session settles unauthenticated, without error. When a token is stored and its
  validation fails, the session settles through \<open>AUTH_FAILURE\<close>: unauthenticated, with
  an error message, and no token can be read back from the storage.
\<close>

theorem checkExistingAuth_settles:
  "(hasToken svc = Resolves False \<longrightarrow>
      snd (checkExistingAuth svc w) = [CallHasToken] \<and>
      session (fst (checkExistingAuth svc w)) =
        \<lparr> isAuthenticated = False, isLoading = False, user = None, error = None \<rparr>)
   \<and> (hasToken svc = Resolves True \<and> validationRejects svc \<longrightarrow>
      (\<exists>m. m \<noteq> [] \<and>
         fst (checkExistingAuth svc w) =
           authReducer (authReducer w AUTH_START) (AUTH_FAILURE m) \<and>
         session (fst (checkExistingAuth svc w)) =
           \<lparr> isAuthenticated = False, isLoading = False, user = None, error = Some m \<rparr>) \<and>
      globalCurrentUser (fst (checkExistingAuth svc w)) = None \<and>
      getToken (storage (fst (checkExistingAuth svc w))) = None)"
proof (intro conjI impI)
  assume h: "hasToken svc = Resolves False"
  show "snd (checkExistingAuth svc w) = [CallHasToken]"
    by (simp add: checkExistingAuth_no_token [OF h])
  show "session (fst (checkExistingAuth svc w)) =
        \<lparr> isAuthenticated = False, isLoading = False, user = None, error = None \<rparr>"
    by (simp add: checkExistingAuth_no_token [OF h])
next
  assume h: "hasToken svc = Resolves True \<and> validationRejects svc"
  then obtain m where m: "m \<noteq> []"
    "checkExistingAuth svc w =
       (authReducer (authReducer w AUTH_START) (AUTH_FAILURE m),
        [CallHasToken, CallValidateToken])"
    using checkExistingAuth_rejected [of svc w] by blast
  show "\<exists>m. m \<noteq> [] \<and>
         fst (checkExistingAuth svc w) =
           authReducer (authReducer w AUTH_START) (AUTH_FAILURE m) \<and>
         session (fst (checkExistingAuth svc w)) =
           \<lparr> isAuthenticated = False, isLoading = False, user = None, error = Some m \<rparr>"
    using m by (intro exI [of _ m]) simp
  show "globalCurrentUser (fst (checkExistingAuth svc w)) = None"
    using m by simp
  show "getToken (storage (fst (checkExistingAuth svc w))) = None"
    using m by (simp add: getToken_removeToken)
qed

theorem checkExistingAuth_settles_witness:
  "hasToken svcNoToken = Resolves False
   \<and> snd (checkExistingAuth svcNoToken (initialWorld None storedOld)) = [CallHasToken]
   \<and> session (fst (checkExistingAuth svcNoToken (initialWorld None storedOld))) =
       \<lparr> isAuthenticated = False, isLoading = False, user = None, error = None \<rparr>
   \<and> hasToken svcExpired = Resolves True \<and> validationRejects svcExpired
   \<and> getToken (storage (initialWorld (None :: nat option) storedOld)) = Some (js ''old'')
   \<and> getToken (storage (fst (checkExistingAuth svcExpired (initialWorld None storedOld)))) = None
   \<and> session (fst (checkExistingAuth svcExpired (initialWorld None storedOld))) =
       \<lparr> isAuthenticated = False, isLoading = False, user = None,
         error = Some (js ''jwt expired'') \<rparr>
   \<and> hasToken svcDown = Resolves True \<and> validationRejects svcDown
   \<and> getToken (storage (fst (checkExistingAuth svcDown (initialWorld None storedOld)))) = None"
  using checkExistingAuth_settles [of svcNoToken "initialWorld None storedOld"]
    checkExistingAuth_settles [of svcExpired "initialWorld None storedOld"]
    checkExistingAuth_settles [of svcDown "initialWorld None storedOld"]
  by (simp add: svcNoToken_def svcExpired_def svcDown_def validationRejects_def successUser_def
      initialWorld_def initialState_def storedOld_def getToken_def checkExistingAuth_def Let_def
      orElse_def js_def)

lemma login_resolved:
  "loginCall svc c = Resolves r \<Longrightarrow>
   login svc c w =
     (case successUser r of
        Some u \<Rightarrow>
          (authReducer (authReducer w AUTH_START) (AUTH_SUCCESS u (respToken r)), Resolves r)
      | None \<Rightarrow>
          (authReducer (authReducer w AUTH_START)
             (AUTH_FAILURE (orElse (message r) (js ''Error en el login''))), Resolves r))"
  by (simp add: login_def Let_def split: option.splits)

lemma login_rejected:
  "loginCall svc c = Rejects e \<Longrightarrow>
   login svc c w =
     (authReducer (authReducer w AUTH_START) (AUTH_FAILURE (js ''Error durante el login'')),
      Resolves \<lparr> success = False, message = Some (js ''Error durante el login''),
                 respUser = None, respToken = None \<rparr>)"
  by (simp add: login_def Let_def)

lemma login_never_rejects: "\<exists>r. snd (login svc c w) = Resolves r"
  by (cases "loginCall svc c")
     (simp_all add: login_rejected login_resolved split: option.splits)

lemma login_success:
  assumes "loginCall svc c = Resolves r" "success r" "respUser r = Some u"
  shows "fst (login svc c w) =
           authReducer (authReducer w AUTH_START) (AUTH_SUCCESS u (respToken r))"
  using assms by (simp add: login_resolved successUser_def)

lemma login_failure:
  assumes "loginCall svc c = Rejects e \<or> (loginCall svc c = Resolves r \<and> successUser r = None)"
  shows "\<exists>m. m \<noteq> [] \<and>
           fst (login svc c w) = authReducer (authReducer w AUTH_START) (AUTH_FAILURE m)"
  using assms
proof
  assume "loginCall svc c = Rejects e"
  then show ?thesis
    by (intro exI [of _ "js ''Error durante el login''"]) (simp add: login_rejected js_def)
next
  assume "loginCall svc c = Resolves r \<and> successUser r = None"
  moreover have "orElse (message r) (js ''Error en el login'') \<noteq> []"
    by (rule orElse_nonempty) (simp add: js_def)
  ultimately show ?thesis
    by (intro exI [of _ "orElse (message r) (js ''Error en el login'')"])
       (simp add: login_resolved)
qed

lemma getToken_saveToken:
  "t \<noteq> [] \<Longrightarrow> getToken (fst (saveToken t (Working items False))) = Some t"
  by (simp add: getToken_def saveToken_def)

text \<open>
  Claim C5, as amended. For every credentials and every behaviour of the remote call,
  \<open>login\<close> resolves (it never rejects): with the response itself when the call
  resolves, with a response whose \<open>success\<close> is false when the call throws. On a
  success response carrying a user the session becomes authenticated with that user,
  and the token is saved when the response carries one that is not empty: the storage
  is then what \<open>saveToken\<close> makes of it (on a working, writable local storage the token
  can be read back), and is untouched when the response has no token. On a failure (a
  rejected call, or a response without success or without user) the session becomes
  unauthenticated with an error message that is not empty.
\<close>

theorem login_resolves_amended:
  "(\<exists>r'. snd (login svc c w) = Resolves r')
   \<and> (loginCall svc c = Resolves r \<longrightarrow> snd (login svc c w) = Resolves r)
   \<and> (loginCall svc c = Rejects e \<longrightarrow>
        (\<exists>r'. snd (login svc c w) = Resolves r' \<and> \<not> success r'))
   \<and> (loginCall svc c = Resolves r \<and> success r \<and> respUser r = Some u \<longrightarrow>
        session (fst (login svc c w)) =
          \<lparr> isAuthenticated = True, isLoading = False, user = Some u, error = None \<rparr> \<and>
        storage (fst (login svc c w)) =
          (case respToken r of
             None \<Rightarrow> storage w
           | Some t \<Rightarrow> if t = [] then storage w else fst (saveToken t (storage w))) \<and>
        (\<forall>t items. respToken r = Some t \<and> t \<noteq> [] \<and> storage w = Working items False \<longrightarrow>
           getToken (storage (fst (login svc c w))) = Some t))
   \<and> (loginCall svc c = Rejects e \<or> (loginCall svc c = Resolves r \<and> successUser r = None) \<longrightarrow>
        (\<exists>m. m \<noteq> [] \<and>
           session (fst (login svc c w)) =
             \<lparr> isAuthenticated = False, isLoading = False, user = None, error = Some m \<rparr>))"
proof (intro conjI impI)
  show "\<exists>r'. snd (login svc c w) = Resolves r'" by (rule login_never_rejects)
next
  assume "loginCall svc c = Resolves r"
  then show "snd (login svc c w) = Resolves r"
    by (simp add: login_resolved split: option.splits)
next
  assume "loginCall svc c = Rejects e"
  then show "\<exists>r'. snd (login svc c w) = Resolves r' \<and> \<not> success r'"
    by (simp add: login_rejected)
next
  assume h: "loginCall svc c = Resolves r \<and> success r \<and> respUser r = Some u"
  then have eq: "fst (login svc c w) =
      authReducer (authReducer w AUTH_START) (AUTH_SUCCESS u (respToken r))"
    by (simp add: login_success)
  show "session (fst (login svc c w)) =
          \<lparr> isAuthenticated = True, isLoading = False, user = Some u, error = None \<rparr>"
    by (simp add: eq)
  show "storage (fst (login svc c w)) =
          (case respToken r of
             None \<Rightarrow> storage w
           | Some t \<Rightarrow> if t = [] then storage w else fst (saveToken t (storage w)))"
    by (simp add: eq split: option.splits)
  show "\<forall>t items. respToken r = Some t \<and> t \<noteq> [] \<and> storage w = Working items False \<longrightarrow>
           getToken (storage (fst (login svc c w))) = Some t"
    by (simp add: eq getToken_saveToken)
next
  assume "loginCall svc c = Rejects e \<or> (loginCall svc c = Resolves r \<and> successUser r = None)"
  then obtain m where "m \<noteq> []"
    "fst (login svc c w) = authReducer (authReducer w AUTH_START) (AUTH_FAILURE m)"
    using login_failure [of svc c e r w] by blast
  then show "\<exists>m. m \<noteq> [] \<and>
           session (fst (login svc c w)) =
             \<lparr> isAuthenticated = False, isLoading = False, user = None, error = Some m \<rparr>"
    by (intro exI [of _ m]) simp
qed

theorem login_resolves_amended_witness:
  "loginCall svcAccept () =
     Resolves \<lparr> success = True, message = None, respUser = Some 1,
                respToken = Some (js ''abc'') \<rparr>
   \<and> session (fst (login svcAccept () (initialWorld None storedOld))) =
       \<lparr> isAuthenticated = True, isLoading = False, user = Some 1, error = None \<rparr>
   \<and> getToken (storage (fst (login svcAccept () (initialWorld None storedOld)))) =
       Some (js ''abc'')
   \<and> loginCall svcRefuse () =
       Resolves \<lparr> success = False, message = Some (js ''Bad credentials''), respUser = None,
                  respToken = None \<rparr>
   \<and> snd (login svcRefuse () signedIn) =
       Resolves \<lparr> success = False, message = Some (js ''Bad credentials''), respUser = None,
                  respToken = None \<rparr>
   \<and> session (fst (login svcRefuse () signedIn)) =
       \<lparr> isAuthenticated = False, isLoading = False, user = None,
         error = Some (js ''Bad credentials'') \<rparr>
   \<and> loginCall svcDown () = Rejects ()
   \<and> snd (login svcDown () signedIn) =
       Resolves \<lparr> success = False, message = Some (js ''Error durante el login''),
                  respUser = None, respToken = None \<rparr>
   \<and> session (fst (login svcDown () signedIn)) =
       \<lparr> isAuthenticated = False, isLoading = False, user = None,
         error = Some (js ''Error durante el login'') \<rparr>"
  using
    login_resolves_amended
      [of svcAccept "()" "initialWorld None storedOld"
        "\<lparr> success = True, message = None, respUser = Some 1, respToken = Some (js ''abc'') \<rparr>"
        "()" 1]
    login_resolves_amended
      [of svcRefuse "()" signedIn
        "\<lparr> success = False, message = Some (js ''Bad credentials''), respUser = None,
           respToken = None \<rparr>" "()" 1]
    login_resolves_amended
      [of svcDown "()" signedIn
        "\<lparr> success = False, message = None, respUser = None, respToken = None \<rparr>" "()" 1]
  by (simp add: svcAccept_def svcRefuse_def svcDown_def login_def Let_def successUser_def
      signedIn_def initialWorld_def initialState_def storedOld_def getToken_def saveToken_def
      removeToken_def orElse_def js_def)

text \<open>
  Claim C5 as stated fails where it says that a success response has its token stored.
  Without a local storage (React Native has none) the login with user \<open>1\<close> and token
  \<open>abc\<close> authenticates the session and no token can be read back; and a success
  response without a token leaves the token \<open>old\<close> of an earlier session in place.
\<close>

theorem login_token_not_stored_counterexample:
  "loginCall svcAccept () =
     Resolves \<lparr> success = True, message = None, respUser = Some 1,
                respToken = Some (js ''abc'') \<rparr>
   \<and> isAuthenticated (session (fst (login svcAccept () (initialWorld None Missing))))
   \<and> getToken (storage (fst (login svcAccept () (initialWorld None Missing)))) = None
   \<and> isAuthenticated (session (fst (login svcAcceptNoToken () (initialWorld None storedOld))))
   \<and> getToken (storage (fst (login svcAcceptNoToken () (initialWorld None storedOld)))) =
       Some (js ''old'')"
  by (simp add: svcAccept_def svcAcceptNoToken_def login_def Let_def successUser_def
      initialWorld_def initialState_def storedOld_def getToken_def saveToken_def js_def)

section \<open>The menu item form\<close>

lemma price_check: "(isNaN n \<or> num_lt n (Num 0)) = (\<not> nonNegative n)"
  by (cases n) (auto simp: isNaN_def nonNegative_def)

lemma percent_check:
  "(isNaN n \<or> num_le n (Num 0) \<or> num_lt (Num 100) n) = (\<not> inPercentRange n)"
  by (cases n) (auto simp: isNaN_def inPercentRange_def)

lemma validateForm_iff:
  "validateForm pf vu f =
     (otherFieldsValid pf vu f \<and>
      (itemType f = alcohol \<longrightarrow>
         trim (alcoholPercentage f) \<noteq> [] \<and> inPercentRange (pf (alcoholPercentage f))))"
  unfolding validateForm_def newErrors_def otherFieldsValid_def Let_def isValidUrl_def
    price_check percent_check
  by auto

text \<open>
  Claim C6. A form passes validation exactly when its other fields are valid and, for
  the type alcohol only, the alcohol percentage is not blank and parses to a number in
  (0, 100]. So an alcohol item with an empty percentage fails, and for food and drink
  the outcome does not depend on what the percentage field holds.
\<close>

theorem validateForm_alcoholPercentage:
  "validateForm pf vu f =
     (otherFieldsValid pf vu f \<and>
      (itemType f = alcohol \<longrightarrow>
         trim (alcoholPercentage f) \<noteq> [] \<and> inPercentRange (pf (alcoholPercentage f))))
   \<and> (itemType f = alcohol \<and> trim (alcoholPercentage f) = [] \<longrightarrow> \<not> validateForm pf vu f)
   \<and> (itemType f \<noteq> alcohol \<longrightarrow>
        validateForm pf vu (f\<lparr> alcoholPercentage := x \<rparr>) = otherFieldsValid pf vu f)"
  by (simp add: validateForm_iff otherFieldsValid_def)

theorem validateForm_alcoholPercentage_witness:
  "itemType mezcal = alcohol \<and> trim (alcoholPercentage mezcal) = []
   \<and> \<not> validateForm parseFloatExample (\<lambda>u. True) mezcal
   \<and> otherFieldsValid parseFloatExample (\<lambda>u. True) mezcal
   \<and> validateForm parseFloatExample (\<lambda>u. True) (mezcal\<lparr> alcoholPercentage := js ''100'' \<rparr>)
   \<and> \<not> validateForm parseFloatExample (\<lambda>u. True) (mezcal\<lparr> alcoholPercentage := js ''0'' \<rparr>)
   \<and> \<not> validateForm parseFloatExample (\<lambda>u. True)
         (mezcal\<lparr> alcoholPercentage := js ''100.5'' \<rparr>)
   \<and> itemType (mezcal\<lparr> itemType := comida \<rparr>) \<noteq> alcohol
   \<and> validateForm parseFloatExample (\<lambda>u. True)
       (mezcal\<lparr> itemType := comida, alcoholPercentage := js ''n/a'' \<rparr>)"
  using
    validateForm_alcoholPercentage [of parseFloatExample "\<lambda>u. True" mezcal "[]"]
    validateForm_alcoholPercentage
      [of parseFloatExample "\<lambda>u. True" "mezcal\<lparr> alcoholPercentage := js ''100'' \<rparr>" "[]"]
    validateForm_alcoholPercentage
      [of parseFloatExample "\<lambda>u. True" "mezcal\<lparr> alcoholPercentage := js ''0'' \<rparr>" "[]"]
    validateForm_alcoholPercentage
      [of parseFloatExample "\<lambda>u. True" "mezcal\<lparr> alcoholPercentage := js ''100.5'' \<rparr>" "[]"]
    validateForm_alcoholPercentage
      [of parseFloatExample "\<lambda>u. True" "mezcal\<lparr> itemType := comida \<rparr>" "js ''n/a''"]
  by (simp add: mezcal_def parseFloatExample_def otherFieldsValid_def nonNegative_def
      inPercentRange_def trim_def isWhiteSpace_def js_def)

section \<open>The review modal\<close>

lemma httpCalls_append: "httpCalls (xs @ ys) = httpCalls xs @ httpCalls ys"
  by (induction xs rule: httpCalls.induct) simp_all

lemma httpCalls_map_Http: "httpCalls (map Http rs) = rs"
  by (induction rs) simp_all

lemma length_trim_le: "length (trim s) \<le> length s"
proof -
  have "length (trim s) = length (dropWhile isWhiteSpace (rev (dropWhile isWhiteSpace s)))"
    by (simp add: trim_def)
  also have "\<dots> \<le> length (rev (dropWhile isWhiteSpace s))"
    by (rule length_dropWhile_le)
  also have "\<dots> \<le> length s"
    by (simp add: length_dropWhile_le)
  finally show ?thesis .
qed

lemma truthy_cases: "truthy a = (\<exists>u. a = Some u \<and> u \<noteq> [])"
  by (cases a) (simp_all add: truthy_def)

lemma falsy_cases: "(\<not> truthy a) = (a = None \<or> a = Some [])"
  by (cases a) (simp_all add: truthy_def)

lemma createReview_requests:
  "truthy uid \<Longrightarrow>
   fst (createReview h api uid barId d) =
     [Request POST (js ''/bars/'' @ barId @ js ''/reviews'') (Some (WithUser d (the uid)))]"
  by (auto simp: truthy_cases createReview_def Let_def split: outcome.splits)

lemma updateReview_requests:
  "truthy uid \<Longrightarrow>
   fst (updateReview h api uid rid d) =
     [Request PUT (js ''/users/'' @ the uid @ js ''/reviews/'' @ rid) (Some (Plain d))]"
  by (auto simp: truthy_cases updateReview_def Let_def split: outcome.splits)

lemma handleSubmit_rejected:
  "rating m \<noteq> 0 \<Longrightarrow> length (trim (comment m)) < 10 \<Longrightarrow>
   handleSubmit h api uid barId ex m =
     (m, [Alert (js ''Error'') (js ''Please write at least 10 characters in your review'')])"
  by (simp add: handleSubmit_def)

lemma handleSubmit_accepted:
  "rating m \<noteq> 0 \<Longrightarrow> 10 \<le> length (trim (comment m)) \<Longrightarrow>
   httpCalls (snd (handleSubmit h api uid barId ex m)) =
     fst (case ex of
            Some e \<Rightarrow> updateReview h api uid (review_id e)
                       \<lparr> data_rating = rating m, data_comment = trim (comment m) \<rparr>
          | None \<Rightarrow> createReview h api uid barId
                      \<lparr> data_rating = rating m, data_comment = trim (comment m) \<rparr>)"
  by (simp add: handleSubmit_def Let_def httpCalls_append httpCalls_map_Http
      split: prod.splits sum.splits option.splits)

text \<open>
  Claim C7, as amended. With a rating from 1 to 5 selected: a comment of length 9, or
  one whose trimmed text has length 9, is rejected with an alert and no request is made;
  a comment whose trimmed text has length 10 is accepted, and the one request of the
  update (for an existing review) or of the creation is issued when there is a current
  user; without a current user the service refuses before any request.
\<close>

theorem handleSubmit_comment_boundary_amended:
  assumes "1 \<le> rating m" and "rating m \<le> 5"
  shows
  "(length (comment m) = 9 \<or> length (trim (comment m)) = 9 \<longrightarrow>
      handleSubmit h api uid barId ex m =
        (m, [Alert (js ''Error'') (js ''Please write at least 10 characters in your review'')]))
   \<and> (length (trim (comment m)) = 10 \<and> uid = Some userId \<and> userId \<noteq> [] \<longrightarrow>
      httpCalls (snd (handleSubmit h api uid barId ex m)) =
        [case ex of
           Some e \<Rightarrow>
             Request PUT (js ''/users/'' @ userId @ js ''/reviews/'' @ review_id e)
               (Some (Plain \<lparr> data_rating = rating m, data_comment = trim (comment m) \<rparr>))
         | None \<Rightarrow>
             Request POST (js ''/bars/'' @ barId @ js ''/reviews'')
               (Some (WithUser \<lparr> data_rating = rating m, data_comment = trim (comment m) \<rparr>
                  userId))])
   \<and> (length (trim (comment m)) = 10 \<and> \<not> truthy uid \<longrightarrow>
      snd (handleSubmit h api uid barId ex m) =
        [Alert (js ''Error'') (js ''User not authenticated'')])"
proof (intro conjI impI)
  from assms have r: "rating m \<noteq> 0" by simp
  {
    assume "length (comment m) = 9 \<or> length (trim (comment m)) = 9"
    with length_trim_le [of "comment m"] have "length (trim (comment m)) < 10" by auto
    with r show "handleSubmit h api uid barId ex m =
        (m, [Alert (js ''Error'') (js ''Please write at least 10 characters in your review'')])"
      by (rule handleSubmit_rejected)
  next
    assume a: "length (trim (comment m)) = 10 \<and> uid = Some userId \<and> userId \<noteq> []"
    then have t: "truthy uid" by (simp add: truthy_def)
    from a have "10 \<le> length (trim (comment m))" by simp
    from handleSubmit_accepted [OF r this, of h api uid barId ex] a t
    show "httpCalls (snd (handleSubmit h api uid barId ex m)) =
        [case ex of
           Some e \<Rightarrow>
             Request PUT (js ''/users/'' @ userId @ js ''/reviews/'' @ review_id e)
               (Some (Plain \<lparr> data_rating = rating m, data_comment = trim (comment m) \<rparr>))
         | None \<Rightarrow>
             Request POST (js ''/bars/'' @ barId @ js ''/reviews'')
               (Some (WithUser \<lparr> data_rating = rating m, data_comment = trim (comment m) \<rparr>
                  userId))]"
      by (cases ex) (simp_all add: createReview_requests updateReview_requests)
  next
    assume a: "length (trim (comment m)) = 10 \<and> \<not> truthy uid"
    with r show "snd (handleSubmit h api uid barId ex m) =
        [Alert (js ''Error'') (js ''User not authenticated'')]"
      by (cases uid; cases ex)
         (simp_all add: handleSubmit_def Let_def truthy_def createReview_def updateReview_def
            errorText_def)
  }
qed

theorem handleSubmit_comment_boundary_amended_witness:
  "1 \<le> rating (fiveStars (js ''123456789'')) \<and> rating (fiveStars (js ''123456789'')) \<le> 5
   \<and> length (comment (fiveStars (js ''123456789''))) = 9
   \<and> handleSubmit (\<lambda>e. None) apiOk (Some (js ''u1'')) (js ''b1'') None
        (fiveStars (js ''123456789'')) =
      (fiveStars (js ''123456789''),
       [Alert (js ''Error'') (js ''Please write at least 10 characters in your review'')])
   \<and> length (trim (comment (fiveStars (js '' 1234567890 '')))) = 10
   \<and> httpCalls (snd (handleSubmit (\<lambda>e. None) apiOk (Some (js ''u1'')) (js ''b1'') None
        (fiveStars (js '' 1234567890 '')))) =
      [Request POST (js ''/bars/b1/reviews'')
         (Some (WithUser \<lparr> data_rating = 5, data_comment = js ''1234567890'' \<rparr> (js ''u1'')))]
   \<and> \<not> truthy None
   \<and> snd (handleSubmit (\<lambda>e. None) apiOk None (js ''b1'') None
        (fiveStars (js ''1234567890''))) =
      [Alert (js ''Error'') (js ''User not authenticated'')]"
  using
    handleSubmit_comment_boundary_amended
      [of "fiveStars (js ''123456789'')" "\<lambda>e. None" apiOk "Some (js ''u1'')" "js ''b1''" None
        "js ''u1''"]
    handleSubmit_comment_boundary_amended
      [of "fiveStars (js '' 1234567890 '')" "\<lambda>e. None" apiOk "Some (js ''u1'')" "js ''b1''"
        None "js ''u1''"]
    handleSubmit_comment_boundary_amended
      [of "fiveStars (js ''1234567890'')" "\<lambda>e. None" apiOk None "js ''b1''" None "js ''u1''"]
  by (simp add: fiveStars_def trim_def isWhiteSpace_def truthy_def js_def)

text \<open>
  Claim C7 as stated fails for a comment of length 10 that starts or ends with white
  space: the handler measures the trimmed comment. Nine characters and a space are
  rejected with an alert, and no request is made although a user is signed in.
\<close>

theorem handleSubmit_length_ten_rejected_counterexample:
  "length (comment (fiveStars (js ''123456789 ''))) = 10
   \<and> handleSubmit (\<lambda>e. None) apiOk (Some (js ''u1'')) (js ''b1'') None
        (fiveStars (js ''123456789 '')) =
      (fiveStars (js ''123456789 ''),
       [Alert (js ''Error'') (js ''Please write at least 10 characters in your review'')])
   \<and> httpCalls (snd (handleSubmit (\<lambda>e. None) apiOk (Some (js ''u1'')) (js ''b1'') None
        (fiveStars (js ''123456789 '')))) = []"
  by (simp add: handleSubmit_def fiveStars_def trim_def isWhiteSpace_def js_def)

section \<open>The bar service\<close>

lemma fail_fast:
  assumes "\<not> truthy uid"
  shows "createReview h api uid barId d = ([], Inl notAuthenticated)"
    and "updateReview h api uid rid d = ([], Inl notAuthenticated)"
    and "deleteReview h api' uid rid = ([], Inl notAuthenticated)"
    and "addBarToFavorites api' uid barId = ([], Inl notAuthenticated)"
    and "removeBarFromFavorites api' uid barId = ([], Inl notAuthenticated)"
  using assms
  by (auto simp: falsy_cases notAuthenticated_def createReview_def updateReview_def
      deleteReview_def addBarToFavorites_def removeBarFromFavorites_def)

lemma fail_fast_optional:
  assumes "\<not> truthy userId" and "\<not> truthy uid"
  shows "getUserReviewCount h api uid userId = ([], Inl (handleThenThrow h notAuthenticated))"
    and "getUserReviews h api uid userId = ([], Inl (handleThenThrow h notAuthenticated))"
proof -
  from assms(2) have "uid = None \<or> uid = Some []"
    by (simp add: falsy_cases)
  with assms(1)
  show "getUserReviewCount h api uid userId = ([], Inl (handleThenThrow h notAuthenticated))"
    and "getUserReviews h api uid userId = ([], Inl (handleThenThrow h notAuthenticated))"
    by (auto simp: notAuthenticated_def getUserReviewCount_def getUserReviews_def Let_def)
qed

lemma axios_normalized:
  assumes "truthy uid"
  shows "fst (createReview h api uid barId d) = [req] \<Longrightarrow>
         api req = Rejects (AxiosError m rm) \<Longrightarrow>
         snd (createReview h api uid barId d) = Inl (Error (orElse rm m))"
    and "fst (updateReview h api uid rid d) = [req] \<Longrightarrow>
         api req = Rejects (AxiosError m rm) \<Longrightarrow>
         snd (updateReview h api uid rid d) = Inl (Error (orElse rm m))"
    and "fst (deleteReview h api' uid rid) = [req'] \<Longrightarrow>
         api' req' = Rejects (AxiosError m rm) \<Longrightarrow>
         snd (deleteReview h api' uid rid) = Inl (Error (orElse rm m))"
    and "fst (addBarToFavorites api' uid barId) = [req'] \<Longrightarrow>
         api' req' = Rejects (AxiosError m rm) \<Longrightarrow>
         snd (addBarToFavorites api' uid barId) = Inl (Error (orElse rm m))"
  using assms
  by (auto simp: truthy_def createReview_def updateReview_def deleteReview_def
      addBarToFavorites_def normalize_def Let_def
      split: option.splits outcome.splits if_splits)

lemma orElse_present: "rm = Some b \<Longrightarrow> b \<noteq> [] \<Longrightarrow> orElse rm m = b"
  by (simp add: orElse_def)

lemma orElse_absent: "\<not> truthy rm \<Longrightarrow> orElse rm m = m"
  by (cases rm) (simp_all add: orElse_def truthy_def)

text \<open>
  Claim C8, as amended. Without a current user id, \<open>createReview\<close>, \<open>updateReview\<close>,
  \<open>deleteReview\<close>, \<open>addBarToFavorites\<close> and \<open>removeBarFromFavorites\<close> throw
  \<open>User not authenticated\<close> and issue no request; so do \<open>getUserReviewCount\<close> and
  \<open>getUserReviews\<close> when no user id is passed either, the error going through
  \<open>HandleLoginError\<close> first. When the request of \<open>createReview\<close>, \<open>updateReview\<close>,
  \<open>deleteReview\<close> or \<open>addBarToFavorites\<close> fails with an axios error, the caller gets an
  \<open>Error\<close> with one message: the \<open>message\<close> of the response body when there is one that
  is not empty, the message of the axios error otherwise.
\<close>

theorem barService_fail_fast_and_normalize_amended:
  "(\<not> truthy uid \<longrightarrow>
      createReview h api uid barId d = ([], Inl notAuthenticated) \<and>
      updateReview h api uid rid d = ([], Inl notAuthenticated) \<and>
      deleteReview h api' uid rid = ([], Inl notAuthenticated) \<and>
      addBarToFavorites api' uid barId = ([], Inl notAuthenticated) \<and>
      removeBarFromFavorites api' uid barId = ([], Inl notAuthenticated))
   \<and> (\<not> truthy userId \<and> \<not> truthy uid \<longrightarrow>
      getUserReviewCount h api' uid userId = ([], Inl (handleThenThrow h notAuthenticated)) \<and>
      getUserReviews h api' uid userId = ([], Inl (handleThenThrow h notAuthenticated)))
   \<and> (truthy uid \<and> fst (createReview h api uid barId d) = [req] \<and>
       api req = Rejects (AxiosError m rm) \<longrightarrow>
      snd (createReview h api uid barId d) = Inl (Error (orElse rm m)))
   \<and> (truthy uid \<and> fst (updateReview h api uid rid d) = [req] \<and>
       api req = Rejects (AxiosError m rm) \<longrightarrow>
      snd (updateReview h api uid rid d) = Inl (Error (orElse rm m)))
   \<and> (truthy uid \<and> fst (deleteReview h api' uid rid) = [req'] \<and>
       api' req' = Rejects (AxiosError m rm) \<longrightarrow>
      snd (deleteReview h api' uid rid) = Inl (Error (orElse rm m)))
   \<and> (truthy uid \<and> fst (addBarToFavorites api' uid barId) = [req'] \<and>
       api' req' = Rejects (AxiosError m rm) \<longrightarrow>
      snd (addBarToFavorites api' uid barId) = Inl (Error (orElse rm m)))
   \<and> (rm = Some b \<and> b \<noteq> [] \<longrightarrow> orElse rm m = b)
   \<and> (\<not> truthy rm \<longrightarrow> orElse rm m = m)"
proof (intro conjI impI)
  assume "\<not> truthy uid"
  then show "createReview h api uid barId d = ([], Inl notAuthenticated)"
    and "updateReview h api uid rid d = ([], Inl notAuthenticated)"
    and "deleteReview h api' uid rid = ([], Inl notAuthenticated)"
    and "addBarToFavorites api' uid barId = ([], Inl notAuthenticated)"
    and "removeBarFromFavorites api' uid barId = ([], Inl notAuthenticated)"
    by (rule fail_fast)+
next
  assume "\<not> truthy userId \<and> \<not> truthy uid"
  then show
    "getUserReviewCount h api' uid userId = ([], Inl (handleThenThrow h notAuthenticated))"
    and "getUserReviews h api' uid userId = ([], Inl (handleThenThrow h notAuthenticated))"
    by (simp_all add: fail_fast_optional)
next
  assume "truthy uid \<and> fst (createReview h api uid barId d) = [req] \<and>
       api req = Rejects (AxiosError m rm)"
  then show "snd (createReview h api uid barId d) = Inl (Error (orElse rm m))"
    by (simp add: axios_normalized(1))
next
  assume "truthy uid \<and> fst (updateReview h api uid rid d) = [req] \<and>
       api req = Rejects (AxiosError m rm)"
  then show "snd (updateReview h api uid rid d) = Inl (Error (orElse rm m))"
    by (simp add: axios_normalized(2))
next
  assume "truthy uid \<and> fst (deleteReview h api' uid rid) = [req'] \<and>
       api' req' = Rejects (AxiosError m rm)"
  then show "snd (deleteReview h api' uid rid) = Inl (Error (orElse rm m))"
    by (simp add: axios_normalized(3))
next
  assume "truthy uid \<and> fst (addBarToFavorites api' uid barId) = [req'] \<and>
       api' req' = Rejects (AxiosError m rm)"
  then show "snd (addBarToFavorites api' uid barId) = Inl (Error (orElse rm m))"
    by (simp add: axios_normalized(4))
next
  assume "rm = Some b \<and> b \<noteq> []"
  then show "orElse rm m = b" by (simp add: orElse_present)
next
  assume "\<not> truthy rm"
  then show "orElse rm m = m" by (rule orElse_absent)
qed

theorem barService_fail_fast_and_normalize_amended_witness:
  "\<not> truthy None
   \<and> createReview (\<lambda>e. None) (apiOk :: unit reviewBody request \<Rightarrow> (thrown, unit) outcome)
       None (js ''b1'') () = ([], Inl notAuthenticated)
   \<and> removeBarFromFavorites (apiOk :: unit request \<Rightarrow> (thrown, unit) outcome)
       None (js ''b1'') = ([], Inl notAuthenticated)
   \<and> getUserReviews (\<lambda>e. None) (apiOk :: unit request \<Rightarrow> (thrown, unit) outcome) None None =
       ([], Inl notAuthenticated)
   \<and> truthy (Some (js ''u1''))
   \<and> createReview (\<lambda>e. None)
       (apiNotFound :: unit reviewBody request \<Rightarrow> (thrown, unit) outcome)
       (Some (js ''u1'')) (js ''b1'') () =
      ([Request POST (js ''/bars/b1/reviews'') (Some (WithUser () (js ''u1'')))],
       Inl (Error (js ''Bar not found'')))
   \<and> addBarToFavorites (apiTimeout :: unit request \<Rightarrow> (thrown, unit) outcome)
       (Some (js ''u1'')) (js ''b1'') =
      ([Request POST (js ''/users/u1/favorites/b1'') None],
       Inl (Error (js ''timeout of 10000ms exceeded'')))"
  using
    barService_fail_fast_and_normalize_amended
      [where uid = None and userId = None and h = "\<lambda>e. None" and barId = "js ''b1''"
        and d = "()" and rid = "js ''r1''" and rm = None and b = "[]" and m = "[]"
        and api = "apiOk :: unit reviewBody request \<Rightarrow> (thrown, unit) outcome"
        and api' = "apiOk :: unit request \<Rightarrow> (thrown, unit) outcome"
        and req = "Request GET [] None" and req' = "Request GET [] None"]
    barService_fail_fast_and_normalize_amended
      [where uid = "Some (js ''u1'')" and userId = None and h = "\<lambda>e. None"
        and barId = "js ''b1''" and d = "()" and rid = "js ''r1''"
        and rm = "Some (js ''Bar not found'')" and b = "js ''Bar not found''"
        and m = "js ''Request failed with status code 404''"
        and api = "apiNotFound :: unit reviewBody request \<Rightarrow> (thrown, unit) outcome"
        and api' = "apiNotFound :: unit request \<Rightarrow> (thrown, unit) outcome"
        and req = "Request POST (js ''/bars/b1/reviews'') (Some (WithUser () (js ''u1'')))"
        and req' = "Request POST (js ''/users/u1/favorites/b1'') None"]
    barService_fail_fast_and_normalize_amended
      [where uid = "Some (js ''u1'')" and userId = None and h = "\<lambda>e. None"
        and barId = "js ''b1''" and d = "()" and rid = "js ''r1''"
        and rm = None and b = "[]" and m = "js ''timeout of 10000ms exceeded''"
        and api = "apiTimeout :: unit reviewBody request \<Rightarrow> (thrown, unit) outcome"
        and api' = "apiTimeout :: unit request \<Rightarrow> (thrown, unit) outcome"
        and req = "Request POST (js ''/bars/b1/reviews'') (Some (WithUser () (js ''u1'')))"
        and req' = "Request POST (js ''/users/u1/favorites/b1'') None"]
  by (simp add: truthy_def notAuthenticated_def handleThenThrow_def createReview_def
      addBarToFavorites_def apiNotFound_def apiTimeout_def normalize_def orElse_def js_def)

text \<open>
  Claim C8 as stated fails. Without a current user \<open>checkUserReview\<close> and
  \<open>isBarFavorite\<close>, whose endpoints carry the user id, return a value and throw nothing;
  and \<open>removeBarFromFavorites\<close>, which has no \<open>catch\<close>, passes the axios error on as it
  is, with the transport message and not the message of the response body.
\<close>

theorem barService_guard_and_normalize_counterexample:
  "checkUserReview (apiNotFound :: unit request \<Rightarrow> (thrown, unit reviewCheck AxiosResponse) outcome)
     None (js ''b1'') = ([], Inr \<lparr> hasReviewed = False, review = None \<rparr>)
   \<and> isBarFavorite
       (apiNotFound :: unit request \<Rightarrow> (thrown, favoriteCheck option AxiosResponse) outcome)
       None (js ''b1'') = ([], Inr False)
   \<and> snd (removeBarFromFavorites (apiNotFound :: unit request \<Rightarrow> (thrown, unit) outcome)
        (Some (js ''u1'')) (js ''b1'')) =
      Inl (AxiosError (js ''Request failed with status code 404'') (Some (js ''Bar not found'')))"
  by (simp add: checkUserReview_def isBarFavorite_def removeBarFromFavorites_def
      apiNotFound_def js_def)

lemma checkUserReview_total: "\<exists>v. snd (checkUserReview api uid barId) = Inr v"
  by (simp add: checkUserReview_def Let_def split: option.splits outcome.splits)

lemma isBarFavorite_total: "\<exists>v. snd (isBarFavorite api uid barId) = Inr v"
  by (auto simp: isBarFavorite_def Let_def split: option.splits outcome.splits)

lemma check_no_user:
  "\<not> truthy uid \<Longrightarrow>
   checkUserReview api uid barId = ([], Inr \<lparr> hasReviewed = False, review = None \<rparr>)"
  "\<not> truthy uid \<Longrightarrow> isBarFavorite api' uid barId = ([], Inr False)"
  by (auto simp: falsy_cases checkUserReview_def isBarFavorite_def)

lemma check_failed:
  "fst (checkUserReview api uid barId) = [req] \<Longrightarrow> api req = Rejects e \<Longrightarrow>
   snd (checkUserReview api uid barId) = Inr \<lparr> hasReviewed = False, review = None \<rparr>"
  "fst (isBarFavorite api' uid barId) = [req'] \<Longrightarrow> api' req' = Rejects e \<Longrightarrow>
   snd (isBarFavorite api' uid barId) = Inr False"
  by (auto simp: checkUserReview_def isBarFavorite_def Let_def
      split: option.splits outcome.splits if_splits)

lemma check_negative_answer:
  "truthy uid \<Longrightarrow>
   snd (checkUserReview
          (\<lambda>r. Resolves \<lparr> data = \<lparr> hasReviewed = False, review = None \<rparr> \<rparr>) uid barId) =
     Inr \<lparr> hasReviewed = False, review = None \<rparr>"
  "truthy uid \<Longrightarrow>
   snd (isBarFavorite (\<lambda>r. Resolves \<lparr> data = Some \<lparr> isFavorite = False \<rparr> \<rparr>) uid barId) =
     Inr False"
  by (auto simp: truthy_def checkUserReview_def isBarFavorite_def Let_def split: option.splits)

text \<open>
  Claim C10. \<open>checkUserReview\<close> and \<open>isBarFavorite\<close> never throw. Without a current
  user they issue no request and return \<open>{hasReviewed: false}\<close> and \<open>false\<close>; when their
  request fails, for whatever reason, they return the same; and that is also what they
  return when the server answers that there is no review, or that the bar is no
  favourite, so the caller cannot tell these cases apart.
\<close>

theorem checkUserReview_isBarFavorite_total:
  "(\<exists>v. snd (checkUserReview api uid barId) = Inr v)
   \<and> (\<exists>v. snd (isBarFavorite api' uid barId) = Inr v)
   \<and> (\<not> truthy uid \<longrightarrow>
        checkUserReview api uid barId = ([], Inr \<lparr> hasReviewed = False, review = None \<rparr>) \<and>
        isBarFavorite api' uid barId = ([], Inr False))
   \<and> (fst (checkUserReview api uid barId) = [req] \<and> api req = Rejects e \<longrightarrow>
        snd (checkUserReview api uid barId) = Inr \<lparr> hasReviewed = False, review = None \<rparr>)
   \<and> (fst (isBarFavorite api' uid barId) = [req'] \<and> api' req' = Rejects e \<longrightarrow>
        snd (isBarFavorite api' uid barId) = Inr False)
   \<and> (truthy uid \<longrightarrow>
        snd (checkUserReview
               (\<lambda>r. Resolves \<lparr> data = \<lparr> hasReviewed = False, review = None \<rparr> \<rparr>) uid barId) =
          Inr \<lparr> hasReviewed = False, review = None \<rparr> \<and>
        snd (isBarFavorite (\<lambda>r. Resolves \<lparr> data = Some \<lparr> isFavorite = False \<rparr> \<rparr>) uid
               barId) = Inr False)"
proof (intro conjI impI)
  show "\<exists>v. snd (checkUserReview api uid barId) = Inr v" by (rule checkUserReview_total)
  show "\<exists>v. snd (isBarFavorite api' uid barId) = Inr v" by (rule isBarFavorite_total)
next
  assume "\<not> truthy uid"
  then show
    "checkUserReview api uid barId = ([], Inr \<lparr> hasReviewed = False, review = None \<rparr>)"
    and "isBarFavorite api' uid barId = ([], Inr False)"
    by (simp_all add: check_no_user)
next
  assume "fst (checkUserReview api uid barId) = [req] \<and> api req = Rejects e"
  then show
    "snd (checkUserReview api uid barId) = Inr \<lparr> hasReviewed = False, review = None \<rparr>"
    by (simp add: check_failed(1))
next
  assume "fst (isBarFavorite api' uid barId) = [req'] \<and> api' req' = Rejects e"
  then show "snd (isBarFavorite api' uid barId) = Inr False"
    by (simp add: check_failed(2))
next
  assume t: "truthy uid"
  then show
    "snd (checkUserReview
            (\<lambda>r. Resolves \<lparr> data = \<lparr> hasReviewed = False, review = None \<rparr> \<rparr>) uid barId) =
       Inr \<lparr> hasReviewed = False, review = None \<rparr>"
    by (rule check_negative_answer(1))
  from t show
    "snd (isBarFavorite (\<lambda>r. Resolves \<lparr> data = Some \<lparr> isFavorite = False \<rparr> \<rparr>) uid barId) =
       Inr False"
    by (rule check_negative_answer(2))
qed

theorem checkUserReview_isBarFavorite_total_witness:
  "\<not> truthy None
   \<and> checkUserReview
       (apiTimeout :: unit request \<Rightarrow> (thrown, unit reviewCheck AxiosResponse) outcome)
       None (js ''b1'') = ([], Inr \<lparr> hasReviewed = False, review = None \<rparr>)
   \<and> isBarFavorite
       (apiTimeout :: unit request \<Rightarrow> (thrown, favoriteCheck option AxiosResponse) outcome)
       None (js ''b1'') = ([], Inr False)
   \<and> truthy (Some (js ''u1''))
   \<and> checkUserReview
       (apiTimeout :: unit request \<Rightarrow> (thrown, unit reviewCheck AxiosResponse) outcome)
       (Some (js ''u1'')) (js ''b1'') =
      ([Request GET (js ''/users/u1/reviews/b1/check'') None],
       Inr \<lparr> hasReviewed = False, review = None \<rparr>)
   \<and> isBarFavorite
       (apiTimeout :: unit request \<Rightarrow> (thrown, favoriteCheck option AxiosResponse) outcome)
       (Some (js ''u1'')) (js ''b1'') =
      ([Request GET (js ''/users/u1/favorites/b1/check'') None], Inr False)
   \<and> snd (checkUserReview
        (\<lambda>r :: unit request.
           Resolves \<lparr> data = \<lparr> hasReviewed = False, review = (None :: unit option) \<rparr> \<rparr>)
        (Some (js ''u1'')) (js ''b1'')) = Inr \<lparr> hasReviewed = False, review = None \<rparr>
   \<and> snd (isBarFavorite
        (\<lambda>r :: unit request. Resolves \<lparr> data = Some \<lparr> isFavorite = False \<rparr> \<rparr>)
        (Some (js ''u1'')) (js ''b1'')) = Inr False"
  using
    checkUserReview_isBarFavorite_total
      [where uid = None and barId = "js ''b1''"
        and api = "apiTimeout :: unit request \<Rightarrow> (thrown, unit reviewCheck AxiosResponse) outcome"
        and api' = "apiTimeout :: unit request \<Rightarrow>
                      (thrown, favoriteCheck option AxiosResponse) outcome"
        and req = "Request GET [] None" and req' = "Request GET [] None" and e = NotAnError]
    checkUserReview_isBarFavorite_total
      [where uid = "Some (js ''u1'')" and barId = "js ''b1''"
        and api = "apiTimeout :: unit request \<Rightarrow> (thrown, unit reviewCheck AxiosResponse) outcome"
        and api' = "apiTimeout :: unit request \<Rightarrow>
                      (thrown, favoriteCheck option AxiosResponse) outcome"
        and req = "Request GET (js ''/users/u1/reviews/b1/check'') None"
        and req' = "Request GET (js ''/users/u1/favorites/b1/check'') None"
        and e = "AxiosError (js ''timeout of 10000ms exceeded'') None"]
  by (simp add: truthy_def checkUserReview_def isBarFavorite_def apiTimeout_def js_def)

end
